theory Spec2Isabelle
  imports Complex_Main "HOL-Library.Word"
begin

section \<open>Go values shared by the package\<close>

text \<open>
  A Go \<open>error\<close> is an interface value; what the package does with one is read its
  message (\<open>Error()\<close>) and compare it with the sentinel \<open>redis.Nil\<close>. go-redis
  declares \<open>Nil = RedisError("redis: nil")\<close>, a string type, so the comparison
  \<open>err != redis.Nil\<close> is equality of the dynamic type and of the string. Every
  other error is kept as its message text; \<open>fmt.Errorf\<close> with \<open>%w\<close> builds such
  an error from the wrapped one's message.
\<close>

datatype go_error = RedisError string | ErrorString string

fun error_Error :: "go_error \<Rightarrow> string" where
  "error_Error (RedisError s) = s"
| "error_Error (ErrorString s) = s"

definition redis_Nil :: go_error where
  "redis_Nil = RedisError ''redis: nil''"

text \<open>A run-time panic unwinds the calling function; the package itself never recovers.\<close>

datatype panic_value = NilPointerDereference | CallPanic string

datatype 'a outcome = Returns 'a | Panics panic_value

text \<open>
  \<open>time.Duration\<close> is an \<open>int64\<close> count of nanoseconds. A \<open>float64\<close> is kept as its
  IEEE-754 binary64 bit pattern: the package stores and forwards it and never
  computes with it. Go's \<open>int\<close> sizes are stored and forwarded only, too.
\<close>

type_synonym Duration = "64 word"
type_synonym float64 = "64 word"

definition Second :: Duration where
  "Second = 1000000000"

text \<open>
  The rational number a finite binary64 pattern denotes (\<open>None\<close> for the
  infinities and NaN): sign bit 63, biased exponent in bits 62..52, fraction in
  bits 51..0.
\<close>

definition float64_value :: "float64 \<Rightarrow> rat option" where
  "float64_value w =
     (let s = (if bit w 63 then - 1 else 1 :: rat);
          e = unat (take_bit 11 (drop_bit 52 w));
          m = unat (take_bit 52 w)
      in if e = 2047 then None
         else if e = 0 then Some (s * of_nat m / 2 ^ 1074)
         else if 1075 \<le> e then Some (s * of_nat (2 ^ 52 + m) * 2 ^ (e - 1075))
         else Some (s * of_nat (2 ^ 52 + m) / 2 ^ (1075 - e)))"

definition float64_1_0 :: float64 where
  "float64_1_0 = 0x3FF0000000000000"

section \<open>options.go: the settings record and its option functions\<close>

type_synonym ExportProtocol = string

definition ProtocolGRPC :: ExportProtocol where
  "ProtocolGRPC = ''grpc''"

definition ProtocolHTTP :: ExportProtocol where
  "ProtocolHTTP = ''http''"

definition ProtocolJSON :: ExportProtocol where
  "ProtocolJSON = ''json''"

record options =
  serviceName :: string
  serviceVersion :: string
  environment :: string
  protocol :: ExportProtocol
  endpoint :: string
  insecure :: bool
  timeout :: Duration
  samplingRatio :: float64
  batchTimeout :: Duration
  exportTimeout :: Duration
  maxExportBatchSize :: int
  maxQueueSize :: int

text \<open>
  \<open>type Option func(*options)\<close>: an option mutates the record it is handed; here
  it returns the updated record.
\<close>

type_synonym Option = "options \<Rightarrow> options"

definition defaultOptions :: options where
  "defaultOptions =
     \<lparr> serviceName = ''unknown-service'',
       serviceVersion = ''1.0.0'',
       environment = ''development'',
       protocol = ProtocolGRPC,
       endpoint = ''localhost:4317'',
       insecure = True,
       timeout = 5 * Second,
       samplingRatio = float64_1_0,
       batchTimeout = 5 * Second,
       exportTimeout = 30 * Second,
       maxExportBatchSize = 512,
       maxQueueSize = 2048 \<rparr>"

definition WithServiceName :: "string \<Rightarrow> Option" where
  "WithServiceName name = (\<lambda>opts. opts\<lparr>serviceName := name\<rparr>)"

definition WithServiceVersion :: "string \<Rightarrow> Option" where
  "WithServiceVersion version = (\<lambda>opts. opts\<lparr>serviceVersion := version\<rparr>)"

definition WithEnvironment :: "string \<Rightarrow> Option" where
  "WithEnvironment env = (\<lambda>opts. opts\<lparr>environment := env\<rparr>)"

definition WithEndpoint :: "string \<Rightarrow> Option" where
  "WithEndpoint ep = (\<lambda>opts. opts\<lparr>endpoint := ep\<rparr>)"

definition WithInsecure :: "bool \<Rightarrow> Option" where
  "WithInsecure b = (\<lambda>opts. opts\<lparr>insecure := b\<rparr>)"

definition WithTimeout :: "Duration \<Rightarrow> Option" where
  "WithTimeout t = (\<lambda>opts. opts\<lparr>timeout := t\<rparr>)"

definition WithSamplingRatio :: "float64 \<Rightarrow> Option" where
  "WithSamplingRatio ratio = (\<lambda>opts. opts\<lparr>samplingRatio := ratio\<rparr>)"

definition WithBatchTimeout :: "Duration \<Rightarrow> Option" where
  "WithBatchTimeout t = (\<lambda>opts. opts\<lparr>batchTimeout := t\<rparr>)"

definition WithExportTimeout :: "Duration \<Rightarrow> Option" where
  "WithExportTimeout t = (\<lambda>opts. opts\<lparr>exportTimeout := t\<rparr>)"

definition WithMaxExportBatchSize :: "int \<Rightarrow> Option" where
  "WithMaxExportBatchSize sz = (\<lambda>opts. opts\<lparr>maxExportBatchSize := sz\<rparr>)"

definition WithMaxQueueSize :: "int \<Rightarrow> Option" where
  "WithMaxQueueSize sz = (\<lambda>opts. opts\<lparr>maxQueueSize := sz\<rparr>)"

definition WithExportProtocol :: "ExportProtocol \<Rightarrow> Option" where
  "WithExportProtocol p = (\<lambda>opts. opts\<lparr>protocol := p\<rparr>)"

text \<open>
  The first loop of \<open>NewOTelProvider\<close>:
  \<open>options := defaultOptions(); for _, opt := range opts { opt(options) }\<close>.
\<close>

fun applyOptions :: "Option list \<Rightarrow> options \<Rightarrow> options" where
  "applyOptions [] opts = opts"
| "applyOptions (opt # rest) opts = applyOptions rest (opt opts)"

subsection \<open>Option sequences as the caller writes them\<close>

text \<open>
  The record type is unexported, so a caller outside the package builds an option
  only by calling one of the twelve constructors. A \<open>setting\<close> names such a call;
  \<open>option_of\<close> is the option function the call returns.
\<close>

datatype setting =
    SetServiceName string
  | SetServiceVersion string
  | SetEnvironment string
  | SetEndpoint string
  | SetInsecure bool
  | SetTimeout Duration
  | SetSamplingRatio float64
  | SetBatchTimeout Duration
  | SetExportTimeout Duration
  | SetMaxExportBatchSize int
  | SetMaxQueueSize int
  | SetExportProtocol ExportProtocol

fun option_of :: "setting \<Rightarrow> Option" where
  "option_of (SetServiceName v) = WithServiceName v"
| "option_of (SetServiceVersion v) = WithServiceVersion v"
| "option_of (SetEnvironment v) = WithEnvironment v"
| "option_of (SetEndpoint v) = WithEndpoint v"
| "option_of (SetInsecure v) = WithInsecure v"
| "option_of (SetTimeout v) = WithTimeout v"
| "option_of (SetSamplingRatio v) = WithSamplingRatio v"
| "option_of (SetBatchTimeout v) = WithBatchTimeout v"
| "option_of (SetExportTimeout v) = WithExportTimeout v"
| "option_of (SetMaxExportBatchSize v) = WithMaxExportBatchSize v"
| "option_of (SetMaxQueueSize v) = WithMaxQueueSize v"
| "option_of (SetExportProtocol v) = WithExportProtocol v"

datatype field =
    FServiceName | FServiceVersion | FEnvironment | FProtocol | FEndpoint | FInsecure
  | FTimeout | FSamplingRatio | FBatchTimeout | FExportTimeout | FMaxExportBatchSize
  | FMaxQueueSize

datatype field_value =
    VString string | VBool bool | VDuration Duration | VFloat float64 | VInt int

fun read_field :: "field \<Rightarrow> options \<Rightarrow> field_value" where
  "read_field FServiceName opts = VString (serviceName opts)"
| "read_field FServiceVersion opts = VString (serviceVersion opts)"
| "read_field FEnvironment opts = VString (environment opts)"
| "read_field FProtocol opts = VString (protocol opts)"
| "read_field FEndpoint opts = VString (endpoint opts)"
| "read_field FInsecure opts = VBool (insecure opts)"
| "read_field FTimeout opts = VDuration (timeout opts)"
| "read_field FSamplingRatio opts = VFloat (samplingRatio opts)"
| "read_field FBatchTimeout opts = VDuration (batchTimeout opts)"
| "read_field FExportTimeout opts = VDuration (exportTimeout opts)"
| "read_field FMaxExportBatchSize opts = VInt (maxExportBatchSize opts)"
| "read_field FMaxQueueSize opts = VInt (maxQueueSize opts)"

text \<open>
  What the caller's words say about a call: the field it names and the value it
  passes. These two follow the constructors' names and arguments, not their
  bodies; the theorem on option sequences compares them with the bodies.
\<close>

fun field_named :: "setting \<Rightarrow> field" where
  "field_named (SetServiceName v) = FServiceName"
| "field_named (SetServiceVersion v) = FServiceVersion"
| "field_named (SetEnvironment v) = FEnvironment"
| "field_named (SetEndpoint v) = FEndpoint"
| "field_named (SetInsecure v) = FInsecure"
| "field_named (SetTimeout v) = FTimeout"
| "field_named (SetSamplingRatio v) = FSamplingRatio"
| "field_named (SetBatchTimeout v) = FBatchTimeout"
| "field_named (SetExportTimeout v) = FExportTimeout"
| "field_named (SetMaxExportBatchSize v) = FMaxExportBatchSize"
| "field_named (SetMaxQueueSize v) = FMaxQueueSize"
| "field_named (SetExportProtocol v) = FProtocol"

fun value_passed :: "setting \<Rightarrow> field_value" where
  "value_passed (SetServiceName v) = VString v"
| "value_passed (SetServiceVersion v) = VString v"
| "value_passed (SetEnvironment v) = VString v"
| "value_passed (SetEndpoint v) = VString v"
| "value_passed (SetInsecure v) = VBool v"
| "value_passed (SetTimeout v) = VDuration v"
| "value_passed (SetSamplingRatio v) = VFloat v"
| "value_passed (SetBatchTimeout v) = VDuration v"
| "value_passed (SetExportTimeout v) = VDuration v"
| "value_passed (SetMaxExportBatchSize v) = VInt v"
| "value_passed (SetMaxQueueSize v) = VInt v"
| "value_passed (SetExportProtocol v) = VString v"

text \<open>The value of the last call in the sequence that names field \<open>f\<close>, if any.\<close>

fun last_setting :: "field \<Rightarrow> setting list \<Rightarrow> field_value option" where
  "last_setting f [] = None"
| "last_setting f (s # ss) =
     (case last_setting f ss of
        Some v \<Rightarrow> Some v
      | None \<Rightarrow> if field_named s = f then Some (value_passed s) else None)"

section \<open>The tracing SDK as the package uses it\<close>

text \<open>
  The SDK is an external collaborator. What the package does to it is kept as
  data: a span records its name, the attributes attached to it, the status and
  the errors set on it and how many times \<open>End\<close> was called on it; the world
  lists every span started, every exporter built and every tracer-provider
  built, and holds the two process-wide registrations of the \<open>otel\<close> package.
  A span, an exporter and a tracer-provider are referred to by their position
  in these lists, which is their identity.
\<close>

datatype status_code = codes_Unset | codes_Error | codes_Ok

datatype attribute_value = StringValue string | IntValue int

type_synonym KeyValue = "string \<times> attribute_value"

definition attribute_String :: "string \<Rightarrow> string \<Rightarrow> KeyValue" where
  "attribute_String k v = (k, StringValue v)"

definition attribute_Int :: "string \<Rightarrow> int \<Rightarrow> KeyValue" where
  "attribute_Int k v = (k, IntValue v)"

record span =
  span_name :: string
  span_attributes :: "KeyValue list"
  span_status :: "status_code \<times> string"
  span_errors :: "go_error list"
  span_end_calls :: nat

datatype transport = GRPC_transport | HTTP_transport

datatype exporter_option =
    Exp_WithInsecure
  | Exp_WithEndpoint string
  | Exp_WithTimeout Duration
  | Exp_WithHeaders "(string \<times> string) list"

record exporter =
  exp_transport :: transport
  exp_options :: "exporter_option list"

record tracer_provider =
  tp_exporter :: nat
  tp_resource :: "KeyValue list"
  tp_maxExportBatchSize :: int
  tp_batchTimeout :: Duration
  tp_maxQueueSize :: int
  tp_exportTimeout :: Duration
  tp_samplingRatio :: float64
  tp_shutdown_calls :: nat

record world =
  spans :: "span list"
  exporters :: "exporter list"
  tracer_providers :: "tracer_provider list"
  global_tracer_provider :: "nat option"
  global_propagators :: "string list"

definition empty_world :: world where
  "empty_world =
     \<lparr> spans = [], exporters = [], tracer_providers = [],
       global_tracer_provider = None, global_propagators = [] \<rparr>"

text \<open>
  Whether an external constructor or the SDK's shutdown fails is not decided by
  the package; it is a parameter of the model (\<open>None\<close>: no error).
\<close>

record sdk =
  grpc_New_error :: "exporter_option list \<Rightarrow> go_error option"
  http_New_error :: "exporter_option list \<Rightarrow> go_error option"
  resource_New_error :: "KeyValue list \<Rightarrow> go_error option"
  tp_Shutdown_error :: "nat \<Rightarrow> go_error option"

definition otlptracegrpc_New ::
  "sdk \<Rightarrow> world \<Rightarrow> exporter_option list \<Rightarrow> world \<times> (go_error + nat)" where
  "otlptracegrpc_New k w eopts =
     (case grpc_New_error k eopts of
        Some e \<Rightarrow> (w, Inl e)
      | None \<Rightarrow>
          (w\<lparr>exporters := exporters w @ [\<lparr>exp_transport = GRPC_transport, exp_options = eopts\<rparr>]\<rparr>,
           Inr (length (exporters w))))"

definition otlptracehttp_New ::
  "sdk \<Rightarrow> world \<Rightarrow> exporter_option list \<Rightarrow> world \<times> (go_error + nat)" where
  "otlptracehttp_New k w eopts =
     (case http_New_error k eopts of
        Some e \<Rightarrow> (w, Inl e)
      | None \<Rightarrow>
          (w\<lparr>exporters := exporters w @ [\<lparr>exp_transport = HTTP_transport, exp_options = eopts\<rparr>]\<rparr>,
           Inr (length (exporters w))))"

definition resource_New :: "sdk \<Rightarrow> KeyValue list \<Rightarrow> go_error + KeyValue list" where
  "resource_New k attrs =
     (case resource_New_error k attrs of Some e \<Rightarrow> Inl e | None \<Rightarrow> Inr attrs)"

definition update_span :: "nat \<Rightarrow> (span \<Rightarrow> span) \<Rightarrow> world \<Rightarrow> world" where
  "update_span i f w =
     (if i < length (spans w) then w\<lparr>spans := (spans w)[i := f (spans w ! i)]\<rparr> else w)"

definition span_SetAttributes :: "nat \<Rightarrow> KeyValue list \<Rightarrow> world \<Rightarrow> world" where
  "span_SetAttributes i kvs = update_span i (\<lambda>s. s\<lparr>span_attributes := span_attributes s @ kvs\<rparr>)"

definition span_SetStatus :: "nat \<Rightarrow> status_code \<Rightarrow> string \<Rightarrow> world \<Rightarrow> world" where
  "span_SetStatus i c msg = update_span i (\<lambda>s. s\<lparr>span_status := (c, msg)\<rparr>)"

definition span_RecordError :: "nat \<Rightarrow> go_error \<Rightarrow> world \<Rightarrow> world" where
  "span_RecordError i e = update_span i (\<lambda>s. s\<lparr>span_errors := span_errors s @ [e]\<rparr>)"

definition span_End :: "nat \<Rightarrow> world \<Rightarrow> world" where
  "span_End i = update_span i (\<lambda>s. s\<lparr>span_end_calls := Suc (span_end_calls s)\<rparr>)"

subsection \<open>Contexts and tracers\<close>

text \<open>
  A \<open>context.Context\<close> as the package reads it: the gRPC peer and incoming
  metadata, the span the tracer made current, and the values stored under the
  package's own keys. The key type is unexported, so only the package stores
  under these keys, and it stores spans only.
\<close>

record peer =
  Addr :: "string option"

record Context =
  ctx_peer :: "peer option"
  ctx_metadata :: "(string \<times> string list) list"
  ctx_span :: "nat option"
  ctx_values :: "string \<rightharpoonup> nat"

definition context_Background :: Context where
  "context_Background =
     \<lparr> ctx_peer = None, ctx_metadata = [], ctx_span = None, ctx_values = Map.empty \<rparr>"

definition context_WithValue :: "Context \<Rightarrow> string \<Rightarrow> nat \<Rightarrow> Context" where
  "context_WithValue ctx key v = ctx\<lparr>ctx_values := (ctx_values ctx)(key \<mapsto> v)\<rparr>"

text \<open>
  Interface values that the host library or the SDK hands over (a context, a
  command, a tracer) are taken to be non-\<open>nil\<close>. Pointers that the package
  itself dereferences are options: the schema of a statement, the
  tracer-provider of a provider, the global provider, the peer of a context.
\<close>

record tracer =
  tracer_name :: string
  tracer_tp :: nat

text \<open>\<open>tracer.Start(ctx, name, trace.WithAttributes(...))\<close>: a new span, current in the returned context.\<close>

definition tracer_Start ::
  "tracer \<Rightarrow> world \<Rightarrow> Context \<Rightarrow> string \<Rightarrow> KeyValue list \<Rightarrow> world \<times> Context \<times> nat" where
  "tracer_Start t w ctx name attrs =
     (w\<lparr>spans := spans w @
         [\<lparr>span_name = name, span_attributes = attrs, span_status = (codes_Unset, []),
           span_errors = [], span_end_calls = 0\<rparr>]\<rparr>,
      ctx\<lparr>ctx_span := Some (length (spans w))\<rparr>,
      length (spans w))"

section \<open>provider.go\<close>

text \<open>
  \<open>tracerProvider\<close> is a pointer (\<open>None\<close> is \<open>nil\<close>); \<open>once\<close> is the state of the
  \<open>sync.Once\<close>: whether its \<open>Do\<close> has run.
\<close>

record OTelProvider =
  opts :: options
  tracerProvider :: "nat option"
  once :: bool

definition createExporter :: "sdk \<Rightarrow> world \<Rightarrow> OTelProvider \<Rightarrow> world \<times> (go_error + nat)" where
  "createExporter k w p =
     (let ep = (if endpoint (opts p) = [] then ''localhost:4317'' else endpoint (opts p))
      in if protocol (opts p) = ProtocolGRPC then
           (let ep = (if ep = [] then ''localhost:4317'' else ep);
                exporterOpts =
                  (if insecure (opts p) then [Exp_WithInsecure, Exp_WithEndpoint ep]
                   else [Exp_WithEndpoint ep]);
                exporterOpts =
                  (if 0 <s timeout (opts p)
                   then exporterOpts @ [Exp_WithTimeout (timeout (opts p))]
                   else exporterOpts)
            in otlptracegrpc_New k w exporterOpts)
         else if protocol (opts p) = ProtocolHTTP \<or> protocol (opts p) = ProtocolJSON then
           (let ep = (if ep = [] then ''localhost:4318'' else ep);
                exporterOpts =
                  (if insecure (opts p) then [Exp_WithInsecure, Exp_WithEndpoint ep]
                   else [Exp_WithEndpoint ep]);
                exporterOpts =
                  (if 0 <s timeout (opts p)
                   then exporterOpts @ [Exp_WithTimeout (timeout (opts p))]
                   else exporterOpts);
                exporterOpts =
                  (if protocol (opts p) = ProtocolJSON
                   then exporterOpts @ [Exp_WithHeaders [(''Content-Type'', ''application/json'')]]
                   else exporterOpts)
            in otlptracehttp_New k w exporterOpts)
         else (w, Inl (ErrorString (''unsupported protocol: '' @ protocol (opts p)))))"

definition createResource :: "sdk \<Rightarrow> OTelProvider \<Rightarrow> go_error + KeyValue list" where
  "createResource k p =
     resource_New k
       [attribute_String ''service.name'' (serviceName (opts p)),
        attribute_String ''service.version'' (serviceVersion (opts p)),
        attribute_String ''environment'' (environment (opts p))]"

definition createTracerProvider ::
  "world \<Rightarrow> OTelProvider \<Rightarrow> nat \<Rightarrow> KeyValue list \<Rightarrow> world \<times> nat" where
  "createTracerProvider w p ex res =
     (w\<lparr>tracer_providers := tracer_providers w @
         [\<lparr>tp_exporter = ex,
           tp_resource = res,
           tp_maxExportBatchSize = maxExportBatchSize (opts p),
           tp_batchTimeout = batchTimeout (opts p),
           tp_maxQueueSize = maxQueueSize (opts p),
           tp_exportTimeout = exportTimeout (opts p),
           tp_samplingRatio = samplingRatio (opts p),
           tp_shutdown_calls = 0\<rparr>]\<rparr>,
      length (tracer_providers w))"

definition otel_SetTracerProvider :: "nat \<Rightarrow> world \<Rightarrow> world" where
  "otel_SetTracerProvider tp w = w\<lparr>global_tracer_provider := Some tp\<rparr>"

definition otel_SetTextMapPropagator :: "string list \<Rightarrow> world \<Rightarrow> world" where
  "otel_SetTextMapPropagator ps w = w\<lparr>global_propagators := ps\<rparr>"

definition TracerProvider_Shutdown :: "nat \<Rightarrow> world \<Rightarrow> world" where
  "TracerProvider_Shutdown i w =
     (if i < length (tracer_providers w)
      then w\<lparr>tracer_providers := (tracer_providers w)
             [i := (tracer_providers w ! i)\<lparr>tp_shutdown_calls :=
                      Suc (tp_shutdown_calls (tracer_providers w ! i))\<rparr>]\<rparr>
      else w)"

text \<open>
  \<open>Shutdown\<close> and \<open>Tracer\<close> have pointer receivers: the receiver may be \<open>nil\<close>, and
  reading a field of it then panics. The context handed to \<open>Shutdown\<close> is passed
  on to the SDK, whose answer is the parameter \<open>tp_Shutdown_error\<close>. The SDK's
  own \<open>Tracer\<close> method reads a field of its receiver first, so it panics on a
  \<open>nil\<close> tracer-provider.
\<close>

definition Shutdown ::
  "sdk \<Rightarrow> world \<Rightarrow> OTelProvider option \<Rightarrow> world \<times> go_error option outcome" where
  "Shutdown k w p =
     (case p of
        None \<Rightarrow> (w, Panics NilPointerDereference)
      | Some p \<Rightarrow>
          (case tracerProvider p of
             None \<Rightarrow> (w, Returns None)
           | Some tp \<Rightarrow>
               (TracerProvider_Shutdown tp w, Returns (tp_Shutdown_error k tp))))"

definition Tracer :: "OTelProvider option \<Rightarrow> string \<Rightarrow> tracer outcome" where
  "Tracer p name =
     (case p of
        None \<Rightarrow> Panics NilPointerDereference
      | Some p \<Rightarrow>
          (case tracerProvider p of
             None \<Rightarrow> Panics NilPointerDereference
           | Some tp \<Rightarrow> Returns \<lparr>tracer_name = name, tracer_tp = tp\<rparr>))"

text \<open>
  The function handed to \<open>p.once.Do\<close>: it sets \<open>p.tracerProvider\<close> and the
  enclosing function's \<open>err\<close>.
\<close>

definition once_body ::
  "sdk \<Rightarrow> world \<Rightarrow> OTelProvider \<Rightarrow> world \<times> OTelProvider \<times> go_error option" where
  "once_body k w p =
     (case createExporter k w p of
        (w1, Inl e) \<Rightarrow>
          (w1, p, Some (ErrorString (''create exporter failed: '' @ error_Error e)))
      | (w1, Inr exporter) \<Rightarrow>
          (case createResource k p of
             Inl e \<Rightarrow>
               (w1, p, Some (ErrorString (''create resource failed: '' @ error_Error e)))
           | Inr res \<Rightarrow>
               (case createTracerProvider w1 p exporter res of
                  (w2, tp) \<Rightarrow>
                    (otel_SetTextMapPropagator [''tracecontext'', ''baggage'']
                       (otel_SetTracerProvider tp w2),
                     p\<lparr>tracerProvider := Some tp\<rparr>,
                     None))))"

text \<open>\<open>sync.Once.Do\<close>: the function runs if this \<open>Once\<close> has not run one yet.\<close>

definition once_Do ::
  "OTelProvider \<Rightarrow> world \<Rightarrow> (world \<Rightarrow> OTelProvider \<Rightarrow> world \<times> OTelProvider \<times> go_error option)
     \<Rightarrow> world \<times> OTelProvider \<times> go_error option" where
  "once_Do p w f =
     (if once p then (w, p, None)
      else (case f w p of (w', p', err) \<Rightarrow> (w', p'\<lparr>once := True\<rparr>, err)))"

text \<open>
  \<open>NewOTelProvider\<close> returns the provider, a function that shuts it down, and
  an error; on an error the first two are \<open>nil\<close>.
\<close>

definition NewOTelProvider ::
  "sdk \<Rightarrow> world \<Rightarrow> Option list \<Rightarrow> world \<times> (go_error + OTelProvider \<times> (world \<Rightarrow> world))" where
  "NewOTelProvider k w optlist =
     (let options = applyOptions optlist defaultOptions;
          p = \<lparr>opts = options, tracerProvider = None, once = False\<rparr>
      in case once_Do p w (once_body k) of
           (w', p', Some err) \<Rightarrow>
             (w', Inl (ErrorString (''setup provider failed: '' @ error_Error err)))
         | (w', p', None) \<Rightarrow>
             (w', Inr (p', \<lambda>v. fst (Shutdown k v (Some p')))))"

section \<open>The tracer registry and the package's global variables\<close>

text \<open>
  \<open>var Provider *OTelProvider\<close> and \<open>var tracerRegistry = make(map[string]trace.Tracer)\<close>.
\<close>

record globals =
  Provider :: "OTelProvider option"
  tracerRegistry :: "string \<rightharpoonup> tracer"

definition initial_globals :: globals where
  "initial_globals = \<lparr> Provider = None, tracerRegistry = Map.empty \<rparr>"

definition RegisterTracer :: "globals \<Rightarrow> string \<Rightarrow> tracer \<Rightarrow> globals" where
  "RegisterTracer g name t = g\<lparr>tracerRegistry := (tracerRegistry g)(name \<mapsto> t)\<rparr>"

definition GetTracer :: "globals \<Rightarrow> string \<Rightarrow> tracer outcome" where
  "GetTracer g name =
     (case tracerRegistry g name of
        Some t \<Rightarrow> Returns t
      | None \<Rightarrow> Tracer (Provider g) ''default'')"

section \<open>otel\_mysql.go: the GORM callbacks\<close>

definition dbSpanKey :: string where
  "dbSpanKey = ''db_span''"

record GormTracingHook =
  gorm_Tracer :: tracer

record Schema =
  Table :: string

record Statement =
  Schema :: "Schema option"
  Context :: Context
  SQL :: string

record gorm_DB =
  Statement :: Statement
  db_Error :: "go_error option"

text \<open>
  The arguments of \<open>h.Tracer.Start\<close> are evaluated before the call, among them
  \<open>db.Statement.Schema.Table\<close>, which dereferences the schema pointer.
\<close>

definition before :: "GormTracingHook \<Rightarrow> world \<Rightarrow> gorm_DB \<Rightarrow> world \<times> gorm_DB outcome" where
  "before h w db =
     (let spanName =
            (case Schema (Statement db) of
               None \<Rightarrow> ''gorm''
             | Some sch \<Rightarrow> ''gorm.'' @ Table sch)
      in case Schema (Statement db) of
           None \<Rightarrow> (w, Panics NilPointerDereference)
         | Some sch \<Rightarrow>
             (case tracer_Start (gorm_Tracer h) w (Context (Statement db)) spanName
                     [attribute_String ''db.system'' ''mysql'',
                      attribute_String ''db.operation'' (Table sch),
                      attribute_String ''db.statement'' (SQL (Statement db))] of
                (w', ctx, sp) \<Rightarrow>
                  (w', Returns (db\<lparr>Statement :=
                      (Statement db)\<lparr>Context := context_WithValue ctx dbSpanKey sp\<rparr>\<rparr>))))"

text \<open>\<open>defer span.End()\<close> runs when \<open>after\<close> returns, after the status is set.\<close>

definition after :: "GormTracingHook \<Rightarrow> world \<Rightarrow> gorm_DB \<Rightarrow> world" where
  "after h w db =
     (case ctx_values (Context (Statement db)) dbSpanKey of
        None \<Rightarrow> w
      | Some sp \<Rightarrow>
          span_End sp
            (case db_Error db of
               None \<Rightarrow> w
             | Some e \<Rightarrow> span_SetStatus sp codes_Error (error_Error e) (span_RecordError sp e w)))"

section \<open>otel\_redis.go: the Redis hook\<close>

definition redisSpanKey :: string where
  "redisSpanKey = ''redis_span''"

record RedisHook =
  redis_Tracer :: tracer

text \<open>A \<open>redis.Cmder\<close> as the hook reads it: \<open>Name()\<close>, \<open>String()\<close> and \<open>Err()\<close>.\<close>

record Cmder =
  cmd_Name :: string
  cmd_String :: string
  cmd_Err :: "go_error option"

definition BeforeProcess ::
  "RedisHook \<Rightarrow> world \<Rightarrow> Context \<Rightarrow> Cmder \<Rightarrow> world \<times> Context \<times> go_error option" where
  "BeforeProcess h w ctx cmd =
     (let spanName = ''redis.'' @ cmd_Name cmd
      in case tracer_Start (redis_Tracer h) w ctx spanName
                [attribute_String ''db.system'' ''redis'',
                 attribute_String ''db.operation'' (cmd_Name cmd),
                 attribute_String ''db.statement'' (cmd_String cmd)] of
           (w', ctx', sp) \<Rightarrow> (w', context_WithValue ctx' redisSpanKey sp, None))"

definition AfterProcess ::
  "RedisHook \<Rightarrow> world \<Rightarrow> Context \<Rightarrow> Cmder \<Rightarrow> world \<times> go_error option" where
  "AfterProcess h w ctx cmd =
     (case ctx_values ctx redisSpanKey of
        None \<Rightarrow> (w, None)
      | Some sp \<Rightarrow>
          (span_End sp
             (case cmd_Err cmd of
                None \<Rightarrow> w
              | Some err \<Rightarrow>
                  if err \<noteq> redis_Nil
                  then span_SetStatus sp codes_Error (error_Error err) (span_RecordError sp err w)
                  else w),
           None))"

definition BeforeProcessPipeline ::
  "RedisHook \<Rightarrow> world \<Rightarrow> Context \<Rightarrow> Cmder list \<Rightarrow> world \<times> Context \<times> go_error option" where
  "BeforeProcessPipeline h w ctx cmds =
     (case tracer_Start (redis_Tracer h) w ctx ''redis.pipeline''
             [attribute_String ''db.system'' ''redis'',
              attribute_String ''db.operation'' ''pipeline'',
              attribute_Int ''db.redis.num_cmd'' (int (length cmds))] of
        (w', ctx', sp) \<Rightarrow> (w', context_WithValue ctx' redisSpanKey sp, None))"

text \<open>The loop of \<open>AfterProcessPipeline\<close>: it stops at the first command with an error to report.\<close>

fun pipeline_errors :: "nat \<Rightarrow> Cmder list \<Rightarrow> world \<Rightarrow> world" where
  "pipeline_errors sp [] w = w"
| "pipeline_errors sp (cmd # cmds) w =
     (case cmd_Err cmd of
        None \<Rightarrow> pipeline_errors sp cmds w
      | Some err \<Rightarrow>
          if err \<noteq> redis_Nil
          then span_SetStatus sp codes_Error (error_Error err) (span_RecordError sp err w)
          else pipeline_errors sp cmds w)"

definition AfterProcessPipeline ::
  "RedisHook \<Rightarrow> world \<Rightarrow> Context \<Rightarrow> Cmder list \<Rightarrow> world \<times> go_error option" where
  "AfterProcessPipeline h w ctx cmds =
     (case ctx_values ctx redisSpanKey of
        None \<Rightarrow> (w, None)
      | Some sp \<Rightarrow> (span_End sp (pipeline_errors sp cmds w), None))"

text \<open>
  The three methods of the go-redis v9 \<open>Hook\<close> interface. A \<open>redis.ProcessHook\<close> is
  a function that runs one command; it may start spans, so it takes and
  returns the world.
\<close>

type_synonym DialHook = "string \<Rightarrow> string \<Rightarrow> go_error option"
type_synonym ProcessHook = "world \<Rightarrow> Context \<Rightarrow> Cmder \<Rightarrow> world \<times> go_error option outcome"
type_synonym ProcessPipelineHook =
  "world \<Rightarrow> Context \<Rightarrow> Cmder list \<Rightarrow> world \<times> go_error option outcome"

definition DialHook :: "RedisHook \<Rightarrow> DialHook \<Rightarrow> DialHook" where
  "DialHook h next = next"

definition ProcessHook :: "RedisHook \<Rightarrow> ProcessHook \<Rightarrow> ProcessHook" where
  "ProcessHook h next = next"

definition ProcessPipelineHook :: "RedisHook \<Rightarrow> ProcessPipelineHook \<Rightarrow> ProcessPipelineHook" where
  "ProcessPipelineHook h next = next"

section \<open>example/grpc/main.go: the unary interceptor\<close>

record UnaryServerInfo =
  FullMethod :: string

text \<open>
  A \<open>grpc.UnaryHandler\<close> returns a response and an error, or panics; it runs
  with the span-carrying context and may start spans of its own.
\<close>

type_synonym ('req, 'resp) UnaryHandler =
  "world \<Rightarrow> Context \<Rightarrow> 'req \<Rightarrow> world \<times> ('resp \<times> go_error option) outcome"

text \<open>The loop over the incoming metadata, in the order the map is ranged over.\<close>

fun record_metadata :: "nat \<Rightarrow> (string \<times> string list) list \<Rightarrow> world \<Rightarrow> world" where
  "record_metadata sp [] w = w"
| "record_metadata sp ((k, v) # md) w =
     record_metadata sp md
       (if 0 < length v
        then span_SetAttributes sp [attribute_String (''rpc.metadata.'' @ k) (v ! 0)] w
        else w)"

text \<open>
  The interceptor up to the call of the handler: the span is started (the
  peer's address is read while the arguments of \<open>Start\<close> are evaluated) and the
  metadata recorded. The result is the world and the context the handler is
  called with, and the span.
\<close>

definition interceptor_enter ::
  "tracer \<Rightarrow> world \<Rightarrow> Context \<Rightarrow> UnaryServerInfo \<Rightarrow> (world \<times> Context \<times> nat) outcome" where
  "interceptor_enter t w ctx info =
     (let p = ctx_peer ctx;
          md = ctx_metadata ctx;
          spanName = ''grpc.'' @ FullMethod info
      in case p of
           None \<Rightarrow> Panics NilPointerDereference
         | Some pr \<Rightarrow>
             (case Addr pr of
                None \<Rightarrow> Panics NilPointerDereference
              | Some addr \<Rightarrow>
                  (case tracer_Start t w ctx spanName
                          [attribute_String ''rpc.system'' ''grpc'',
                           attribute_String ''rpc.method'' (FullMethod info),
                           attribute_String ''peer.address'' addr] of
                     (w1, ctx1, sp) \<Rightarrow> Returns (record_metadata sp md w1, ctx1, sp))))"

text \<open>
  \<open>status_Message\<close> stands for \<open>status.FromError(err)\<close> followed by \<open>Message()\<close>,
  and \<open>elapsed\<close> for the text of \<open>time.Since(startTime)\<close>: both come from outside.
  \<open>defer span.End()\<close> runs on return and on a panic of the handler alike.
\<close>

definition TracingInterceptor ::
  "tracer \<Rightarrow> (go_error \<Rightarrow> string) \<Rightarrow> string \<Rightarrow> world \<Rightarrow> Context \<Rightarrow> 'req \<Rightarrow> UnaryServerInfo
     \<Rightarrow> ('req, 'resp) UnaryHandler \<Rightarrow> world \<times> ('resp \<times> go_error option) outcome" where
  "TracingInterceptor t status_Message elapsed w ctx req info handler =
     (case interceptor_enter t w ctx info of
        Panics pv \<Rightarrow> (w, Panics pv)
      | Returns (w2, ctx1, sp) \<Rightarrow>
          (case handler w2 ctx1 req of
             (w3, Panics pv) \<Rightarrow> (span_End sp w3, Panics pv)
           | (w3, Returns (resp, err)) \<Rightarrow>
               (let w4 = span_SetAttributes sp [attribute_String ''rpc.duration'' elapsed] w3;
                    w5 = (case err of
                            Some e \<Rightarrow>
                              span_RecordError sp e
                                (span_SetStatus sp codes_Error (status_Message e) w4)
                          | None \<Rightarrow> span_SetStatus sp codes_Ok ''success'' w4)
                in (span_End sp w5, Returns (resp, err)))))"

section \<open>One intercepted call\<close>

text \<open>
  The host library brackets a call with the two callbacks: it runs the
  before-callback, then the call itself, then the after-callback, handing over
  the context (Redis) or the statement (GORM) that the before-callback
  produced. Neither host recovers from a panic of the call, so the callbacks
  still to run are skipped. The call is given by how it ends.
\<close>

datatype call_result = Returned "go_error option" | Panicked panic_value

definition redis_intercepted ::
  "RedisHook \<Rightarrow> world \<Rightarrow> Context \<Rightarrow> Cmder \<Rightarrow> call_result \<Rightarrow> world \<times> go_error option outcome" where
  "redis_intercepted h w ctx cmd res =
     (case BeforeProcess h w ctx cmd of
        (w1, ctx1, Some e) \<Rightarrow> (w1, Returns (Some e))
      | (w1, ctx1, None) \<Rightarrow>
          (case res of
             Panicked pv \<Rightarrow> (w1, Panics pv)
           | Returned err \<Rightarrow>
               (case AfterProcess h w1 ctx1 (cmd\<lparr>cmd_Err := err\<rparr>) of
                  (w2, Some e) \<Rightarrow> (w2, Returns (Some e))
                | (w2, None) \<Rightarrow> (w2, Returns err))))"

definition gorm_intercepted ::
  "GormTracingHook \<Rightarrow> world \<Rightarrow> gorm_DB \<Rightarrow> call_result \<Rightarrow> world \<times> gorm_DB outcome" where
  "gorm_intercepted h w db res =
     (case before h w db of
        (w1, Panics pv) \<Rightarrow> (w1, Panics pv)
      | (w1, Returns db1) \<Rightarrow>
          (case res of
             Panicked pv \<Rightarrow> (w1, Panics pv)
           | Returned err \<Rightarrow>
               (let db2 = db1\<lparr>db_Error := err\<rparr>
                in (after h w1 db2, Returns db2))))"

section \<open>Concrete inputs\<close>

text \<open>An SDK in which every external constructor and the shutdown succeed.\<close>

definition sdk_ok :: sdk where
  "sdk_ok =
     \<lparr> grpc_New_error = (\<lambda>_. None), http_New_error = (\<lambda>_. None),
       resource_New_error = (\<lambda>_. None), tp_Shutdown_error = (\<lambda>_. None) \<rparr>"

definition demo_tracer :: tracer where
  "demo_tracer = \<lparr> tracer_name = ''demo'', tracer_tp = 0 \<rparr>"

definition get_cmd :: Cmder where
  "get_cmd = \<lparr> cmd_Name = ''get'', cmd_String = ''get test_key'', cmd_Err = None \<rparr>"

definition raw_db :: gorm_DB where
  "raw_db =
     \<lparr> Statement = \<lparr> Schema = None, Context = context_Background, SQL = ''SELECT 1'' \<rparr>,
       db_Error = None \<rparr>"

definition users_db :: gorm_DB where
  "users_db =
     \<lparr> Statement =
         \<lparr> Schema = Some \<lparr> Table = ''users'' \<rparr>, Context = context_Background,
           SQL = ''SELECT * FROM users'' \<rparr>,
       db_Error = None \<rparr>"

definition grpc_ctx :: Context where
  "grpc_ctx = context_Background\<lparr>ctx_peer := Some \<lparr> Addr = Some ''10.0.0.7:41000'' \<rparr>\<rparr>"

definition not_found_handler :: "(string, string) UnaryHandler" where
  "not_found_handler w ctx req = (w, Returns ([], Some (ErrorString ''not found'')))"

definition get_info :: UnaryServerInfo where
  "get_info = \<lparr> FullMethod = ''/svc/Get'' \<rparr>"

text \<open>The world in which the handler of \<open>/svc/Get\<close> is called when nothing was traced before.\<close>

definition entered_world :: world where
  "entered_world =
     empty_world\<lparr>spans :=
       [\<lparr>span_name = ''grpc./svc/Get'',
         span_attributes =
           [attribute_String ''rpc.system'' ''grpc'',
            attribute_String ''rpc.method'' ''/svc/Get'',
            attribute_String ''peer.address'' ''10.0.0.7:41000''],
         span_status = (codes_Unset, []), span_errors = [], span_end_calls = 0\<rparr>]\<rparr>"

section \<open>Configuration builder\<close>

lemmas With_defs =
  WithServiceName_def WithServiceVersion_def WithEnvironment_def WithEndpoint_def
  WithInsecure_def WithTimeout_def WithSamplingRatio_def WithBatchTimeout_def
  WithExportTimeout_def WithMaxExportBatchSize_def WithMaxQueueSize_def
  WithExportProtocol_def

lemma read_field_option_of:
  "read_field f (option_of s cfg) =
     (if field_named s = f then value_passed s else read_field f cfg)"
  by (cases s; cases f; simp add: With_defs)

lemma applyOptions_last_setting:
  "read_field f (applyOptions (map option_of ss) cfg) =
     (case last_setting f ss of None \<Rightarrow> read_field f cfg | Some v \<Rightarrow> v)"
proof (induction ss arbitrary: cfg)
  case Nil
  show ?case by simp
next
  case (Cons s ss)
  show ?case
    by (cases "last_setting f ss") (simp_all add: Cons.IH read_field_option_of)
qed

text \<open>
  Claim C8. For every sequence of option calls handed to the builder, and for
  every field of the settings record, the value the builder ends with is the
  value passed by the last call in the sequence that names the field, and the
  default when no call names it.
\<close>

theorem last_option_wins:
  "read_field f (applyOptions (map option_of ss) defaultOptions) =
     (case last_setting f ss of None \<Rightarrow> read_field f defaultOptions | Some v \<Rightarrow> v)"
  by (rule applyOptions_last_setting)

lemma float64_1_0_value: "float64_value float64_1_0 = Some 1"
  by (simp add: float64_value_def float64_1_0_def bit_iff_odd drop_bit_eq_div take_bit_eq_mod)

text \<open>
  Claim C9. The builder applied to the empty option list yields the defaults:
  service name "unknown-service", protocol grpc, endpoint "localhost:4317",
  insecure true, sampling ratio 1.0, batch timeout 5 s and export timeout 30 s
  (in nanoseconds), maximal export batch size 512, maximal queue size 2048.
\<close>

theorem defaults_of_empty_option_list:
  "serviceName (applyOptions [] defaultOptions) = ''unknown-service''
   \<and> protocol (applyOptions [] defaultOptions) = ''grpc''
   \<and> endpoint (applyOptions [] defaultOptions) = ''localhost:4317''
   \<and> insecure (applyOptions [] defaultOptions) = True
   \<and> float64_value (samplingRatio (applyOptions [] defaultOptions)) = Some 1
   \<and> sint (batchTimeout (applyOptions [] defaultOptions)) = 5 * 1000000000
   \<and> sint (exportTimeout (applyOptions [] defaultOptions)) = 30 * 1000000000
   \<and> maxExportBatchSize (applyOptions [] defaultOptions) = 512
   \<and> maxQueueSize (applyOptions [] defaultOptions) = 2048"
  by (simp add: defaultOptions_def ProtocolGRPC_def Second_def float64_1_0_value)

section \<open>Provider\<close>

lemma once_Do_fresh:
  "once_Do \<lparr>opts = c, tracerProvider = None, once = False\<rparr> w f =
     (case f w \<lparr>opts = c, tracerProvider = None, once = False\<rparr> of
        (w', p', err) \<Rightarrow> (w', p'\<lparr>once := True\<rparr>, err))"
  by (simp add: once_Do_def)

lemma createExporter_Inr:
  "createExporter k w p = (w1, Inr ex) \<Longrightarrow>
     ex = length (exporters w) \<and> length (exporters w1) = Suc (length (exporters w)) \<and>
     tracer_providers w1 = tracer_providers w"
  by (auto simp: createExporter_def otlptracegrpc_New_def otlptracehttp_New_def Let_def
           split: if_splits option.splits)

lemma once_body_ok:
  "once_body k w p = (w', p', None) \<Longrightarrow>
     tracerProvider p' = Some (length (tracer_providers w)) \<and>
     length (tracer_providers w') = Suc (length (tracer_providers w)) \<and>
     length (exporters w') = Suc (length (exporters w)) \<and>
     opts p' = opts p"
  by (auto simp: once_body_def createTracerProvider_def otel_SetTracerProvider_def
        otel_SetTextMapPropagator_def
        split: prod.splits sum.splits dest!: createExporter_Inr)

lemma NewOTelProvider_Inr:
  "NewOTelProvider k w optlist = (w', Inr (p, c)) \<Longrightarrow>
     tracerProvider p = Some (length (tracer_providers w)) \<and>
     length (tracer_providers w') = Suc (length (tracer_providers w)) \<and>
     length (exporters w') = Suc (length (exporters w)) \<and>
     opts p = applyOptions optlist defaultOptions"
  by (auto simp: NewOTelProvider_def Let_def once_Do_fresh
        split: prod.splits option.splits dest!: once_body_ok)

text \<open>
  Whenever two calls in a row both succeed, the second one has built an
  exporter and a tracer-provider of its own: the \<open>Once\<close> it consults belongs to
  the provider it has just allocated.
\<close>

lemma second_construction_builds_again:
  assumes "NewOTelProvider k w optlist = (w1, Inr (p1, c1))"
    and "NewOTelProvider k w1 optlist = (w2, Inr (p2, c2))"
  shows "tracerProvider p1 \<noteq> tracerProvider p2
         \<and> length (exporters w2) = length (exporters w) + 2"
  using NewOTelProvider_Inr [OF assms(1)] NewOTelProvider_Inr [OF assms(2)] by simp

text \<open>
  Claim C1 says that a second call of \<open>NewOTelProvider\<close> with the same option
  list yields the tracer-provider of the first call and builds no second
  exporter. Evaluated on the empty option list, with an SDK in which every
  constructor succeeds and starting from nothing built: the first call returns
  tracer-provider 0, the second tracer-provider 1, and two exporters and two
  tracer-providers exist afterwards.
\<close>

theorem NewOTelProvider_twice_builds_twice:
  "(case NewOTelProvider sdk_ok empty_world [] of
      (w1, r1) \<Rightarrow>
        (case NewOTelProvider sdk_ok w1 [] of
           (w2, r2) \<Rightarrow>
             (map_sum id (tracerProvider \<circ> fst) r1, map_sum id (tracerProvider \<circ> fst) r2,
              length (exporters w2), length (tracer_providers w2)))) =
   (Inr (Some 0), Inr (Some 1), 2, 2)"
  by (simp add: NewOTelProvider_def Let_def once_Do_def once_body_def createExporter_def
        createResource_def resource_New_def createTracerProvider_def otlptracegrpc_New_def
        otel_SetTracerProvider_def otel_SetTextMapPropagator_def sdk_ok_def empty_world_def
        defaultOptions_def ProtocolGRPC_def Second_def word_sless_alt)

text \<open>
  Claim C10. \<open>Shutdown\<close> on a provider whose tracer-provider was never set
  changes nothing and returns no error.
\<close>

theorem Shutdown_uninitialized:
  "tracerProvider p = None \<Longrightarrow> Shutdown k w (Some p) = (w, Returns None)"
  by (simp add: Shutdown_def)

theorem Shutdown_uninitialized_witness:
  "tracerProvider \<lparr>opts = defaultOptions, tracerProvider = None, once = False\<rparr> = None
   \<and> Shutdown sdk_ok empty_world
        (Some \<lparr>opts = defaultOptions, tracerProvider = None, once = False\<rparr>) =
      (empty_world, Returns None)"
  using Shutdown_uninitialized
    [of "\<lparr>opts = defaultOptions, tracerProvider = None, once = False\<rparr>" sdk_ok empty_world]
  by simp

section \<open>Tracer registry\<close>

lemma RegisterTracer_Provider: "Provider (RegisterTracer g name t) = Provider g"
  by (simp add: RegisterTracer_def)

lemma GetTracer_nil_Provider:
  "tracerRegistry g name = None \<Longrightarrow> Provider g = None \<Longrightarrow>
     GetTracer g name = Panics NilPointerDereference"
  by (simp add: GetTracer_def Tracer_def)

lemma GetTracer_registered: "GetTracer (RegisterTracer g name t) name = Returns t"
  by (simp add: GetTracer_def RegisterTracer_def)

text \<open>The fallback does work once a caller has stored an initialised provider in \<open>Provider\<close>.\<close>

lemma GetTracer_fallback:
  "tracerRegistry g name = None \<Longrightarrow> Provider g = Some p \<Longrightarrow> tracerProvider p = Some tp \<Longrightarrow>
     GetTracer g name = Returns \<lparr>tracer_name = ''default'', tracer_tp = tp\<rparr>"
  by (simp add: GetTracer_def Tracer_def)

text \<open>
  Claim C2 says that \<open>GetTracer\<close> on a name never registered returns the
  "default" tracer of the process-wide provider without a fault. Evaluated in
  the package's initial state, and again after another name was registered:
  the global \<open>Provider\<close> is \<open>nil\<close>, no function of the package assigns it, and
  the fallback dereferences it.
\<close>

theorem GetTracer_unregistered_panics:
  "GetTracer initial_globals ''orders'' = Panics NilPointerDereference
   \<and> GetTracer (RegisterTracer initial_globals ''users'' demo_tracer) ''orders'' =
       Panics NilPointerDereference"
  by (simp add: GetTracer_def RegisterTracer_def initial_globals_def Tracer_def)

section \<open>Redis hook: the v9 interface\<close>

text \<open>
  Claim C6. \<open>ProcessHook\<close>, \<open>ProcessPipelineHook\<close> and \<open>DialHook\<close> return the hook
  they are given, so running a command through the wrapped hook is running it
  through the given one: the same result and the same spans.
\<close>

theorem v9_hooks_are_identity:
  "ProcessHook h next = next
   \<and> ProcessPipelineHook h nextp = nextp
   \<and> DialHook h nextd = nextd
   \<and> ProcessHook h next w ctx cmd = next w ctx cmd
   \<and> ProcessPipelineHook h nextp w ctx cmds = nextp w ctx cmds"
  by (simp add: ProcessHook_def ProcessPipelineHook_def DialHook_def)

section \<open>GORM callbacks\<close>

lemma before_nil_Schema:
  "Schema (Statement db) = None \<Longrightarrow> before h w db = (w, Panics NilPointerDereference)"
  by (simp add: before_def)

text \<open>
  Claim C7 says that on a statement without a resolved schema the before
  callback completes and starts a span named "gorm". Evaluated on a raw
  statement: the callback panics on the \<open>nil\<close> schema while building the span's
  attributes, and no span has been started.
\<close>

theorem before_raw_statement_panics:
  "before \<lparr>gorm_Tracer = demo_tracer\<rparr> empty_world raw_db =
     (empty_world, Panics NilPointerDereference)"
  by (simp add: before_def raw_db_def)

section \<open>Interception hooks\<close>

lemmas span_ops =
  update_span_def span_SetAttributes_def span_SetStatus_def span_RecordError_def span_End_def

text \<open>
  The after-callbacks on their own, handed a context that carries a span: the
  status is set on an error only, and \<open>End\<close> is called once.
\<close>

lemma AfterProcess_span:
  assumes "ctx_values ctx redisSpanKey = Some sp" and "sp < length (spans w)"
  shows "span_status (spans (fst (AfterProcess h w ctx cmd)) ! sp) =
           (case cmd_Err cmd of
              None \<Rightarrow> span_status (spans w ! sp)
            | Some e \<Rightarrow>
                if e = redis_Nil then span_status (spans w ! sp)
                else (codes_Error, error_Error e))
         \<and> span_end_calls (spans (fst (AfterProcess h w ctx cmd)) ! sp) =
             Suc (span_end_calls (spans w ! sp))"
  using assms by (simp add: AfterProcess_def span_ops split: option.splits)

lemma after_span:
  assumes "ctx_values (Context (Statement db)) dbSpanKey = Some sp" and "sp < length (spans w)"
  shows "span_status (spans (after h w db) ! sp) =
           (case db_Error db of
              None \<Rightarrow> span_status (spans w ! sp)
            | Some e \<Rightarrow> (codes_Error, error_Error e))
         \<and> span_end_calls (spans (after h w db) ! sp) = Suc (span_end_calls (spans w ! sp))"
  using assms by (simp add: after_def span_ops split: option.splits)

lemma pipeline_errors_none:
  "list_all (\<lambda>c. cmd_Err c = None \<or> cmd_Err c = Some redis_Nil) cmds \<Longrightarrow>
     pipeline_errors sp cmds w = w"
  by (induction cmds) (auto split: option.splits)

text \<open>
  The spans after one intercepted Redis command: those there before, and the one
  span of this command, whose status, recorded errors and number of \<open>End\<close> calls
  depend on how the command ended.
\<close>

lemma redis_intercepted_spans:
  "spans (fst (redis_intercepted h w ctx cmd res)) =
     spans w @
       [\<lparr>span_name = ''redis.'' @ cmd_Name cmd,
         span_attributes =
           [attribute_String ''db.system'' ''redis'',
            attribute_String ''db.operation'' (cmd_Name cmd),
            attribute_String ''db.statement'' (cmd_String cmd)],
         span_status =
           (case res of
              Returned (Some e) \<Rightarrow>
                if e \<noteq> redis_Nil then (codes_Error, error_Error e) else (codes_Unset, [])
            | Returned None \<Rightarrow> (codes_Unset, [])
            | Panicked pv \<Rightarrow> (codes_Unset, [])),
         span_errors =
           (case res of
              Returned (Some e) \<Rightarrow> if e \<noteq> redis_Nil then [e] else []
            | Returned None \<Rightarrow> []
            | Panicked pv \<Rightarrow> []),
         span_end_calls = (case res of Returned err \<Rightarrow> 1 | Panicked pv \<Rightarrow> 0)\<rparr>]"
  by (simp add: redis_intercepted_def BeforeProcess_def AfterProcess_def tracer_Start_def
        context_WithValue_def span_ops split: call_result.splits option.splits)

lemma gorm_intercepted_spans:
  "Schema (Statement db) = Some sch \<Longrightarrow>
   spans (fst (gorm_intercepted h w db res)) =
     spans w @
       [\<lparr>span_name = ''gorm.'' @ Table sch,
         span_attributes =
           [attribute_String ''db.system'' ''mysql'',
            attribute_String ''db.operation'' (Table sch),
            attribute_String ''db.statement'' (SQL (Statement db))],
         span_status =
           (case res of
              Returned (Some e) \<Rightarrow> (codes_Error, error_Error e)
            | Returned None \<Rightarrow> (codes_Unset, [])
            | Panicked pv \<Rightarrow> (codes_Unset, [])),
         span_errors =
           (case res of Returned (Some e) \<Rightarrow> [e] | Returned None \<Rightarrow> [] | Panicked pv \<Rightarrow> []),
         span_end_calls = (case res of Returned err \<Rightarrow> 1 | Panicked pv \<Rightarrow> 0)\<rparr>]"
  by (simp add: gorm_intercepted_def before_def after_def tracer_Start_def
        context_WithValue_def span_ops Let_def split: call_result.splits option.splits)

text \<open>The Redis callbacks leave the command's own error, or panic, as it was.\<close>

lemma redis_intercepted_result:
  "snd (redis_intercepted h w ctx cmd (Returned err)) = Returns err
   \<and> snd (redis_intercepted h w ctx cmd (Panicked pv)) = Panics pv"
  by (simp add: redis_intercepted_def BeforeProcess_def AfterProcess_def tracer_Start_def
        context_WithValue_def)

text \<open>
  Claim C3, as amended. For every intercepted call that returns: when it
  returns a non-nil error (for the Redis hook, one other than \<open>redis.Nil\<close>), the
  after-hook sets the span's status to Error with the error's message text;
  when it succeeds (or, for the Redis hook, returns \<open>redis.Nil\<close>), the after-hook
  sets no status and the span's status stays Unset. The GORM part is about
  statements with a resolved schema.
\<close>

theorem after_hook_status:
  "span_status (last (spans (fst (redis_intercepted h w ctx cmd (Returned err))))) =
     (case err of
        None \<Rightarrow> (codes_Unset, [])
      | Some e \<Rightarrow> if e = redis_Nil then (codes_Unset, []) else (codes_Error, error_Error e))
   \<and> (Schema (Statement db) = Some sch \<longrightarrow>
      span_status (last (spans (fst (gorm_intercepted g w db (Returned err))))) =
        (case err of None \<Rightarrow> (codes_Unset, []) | Some e \<Rightarrow> (codes_Error, error_Error e)))"
  by (simp add: redis_intercepted_spans gorm_intercepted_spans split: option.splits)

theorem after_hook_status_witness:
  "Schema (Statement users_db) = Some \<lparr>Table = ''users''\<rparr>
   \<and> span_status (last (spans (fst (gorm_intercepted \<lparr>gorm_Tracer = demo_tracer\<rparr> empty_world
        users_db (Returned (Some (ErrorString ''not found'')))))))
      = (codes_Error, ''not found'')
   \<and> span_status (last (spans (fst (redis_intercepted \<lparr>redis_Tracer = demo_tracer\<rparr> empty_world
        context_Background get_cmd (Returned (Some (ErrorString ''not found'')))))))
      = (codes_Error, ''not found'')"
  using after_hook_status
    [where db = users_db and sch = "\<lparr>Table = ''users''\<rparr>" and g = "\<lparr>gorm_Tracer = demo_tracer\<rparr>"
       and w = empty_world and err = "Some (ErrorString ''not found'')"
       and h = "\<lparr>redis_Tracer = demo_tracer\<rparr>" and ctx = context_Background and cmd = get_cmd]
  by (simp add: users_db_def redis_Nil_def)

text \<open>
  Against C3 as stated: after a successful Redis command and after a
  successful GORM operation the span's status is not Ok, and after a Redis
  command that returned the non-nil error \<open>redis.Nil\<close> it is not Error.
\<close>

theorem after_hook_status_counterexample:
  "fst (span_status (last (spans (fst (redis_intercepted \<lparr>redis_Tracer = demo_tracer\<rparr> empty_world
      context_Background get_cmd (Returned None)))))) \<noteq> codes_Ok
   \<and> fst (span_status (last (spans (fst (gorm_intercepted \<lparr>gorm_Tracer = demo_tracer\<rparr> empty_world
      users_db (Returned None)))))) \<noteq> codes_Ok
   \<and> fst (span_status (last (spans (fst (redis_intercepted \<lparr>redis_Tracer = demo_tracer\<rparr> empty_world
      context_Background get_cmd (Returned (Some redis_Nil))))))) \<noteq> codes_Error"
  by (simp add: redis_intercepted_spans gorm_intercepted_spans [where sch = "\<lparr>Table = ''users''\<rparr>"]
        users_db_def)

text \<open>
  Claim C4, as amended. For every hook invocation whose wrapped call returns,
  with or without an error, exactly one span is started and it is ended
  exactly once, and the spans there before are not ended again. When the
  wrapped call panics, the after-hook does not run: one span is started and it
  is not ended. The GORM part is about statements with a resolved schema.
\<close>

theorem hook_pair_span_lifecycle:
  "map span_end_calls (spans (fst (redis_intercepted h w ctx cmd (Returned err)))) =
     map span_end_calls (spans w) @ [1]
   \<and> map span_end_calls (spans (fst (redis_intercepted h w ctx cmd (Panicked pv)))) =
       map span_end_calls (spans w) @ [0]
   \<and> (Schema (Statement db) \<noteq> None \<longrightarrow>
        map span_end_calls (spans (fst (gorm_intercepted g w db (Returned err)))) =
          map span_end_calls (spans w) @ [1]
        \<and> map span_end_calls (spans (fst (gorm_intercepted g w db (Panicked pv)))) =
            map span_end_calls (spans w) @ [0])"
  by (auto simp add: redis_intercepted_spans gorm_intercepted_spans)

theorem hook_pair_span_lifecycle_witness:
  "Schema (Statement users_db) \<noteq> None
   \<and> map span_end_calls (spans (fst (gorm_intercepted \<lparr>gorm_Tracer = demo_tracer\<rparr> empty_world
        users_db (Returned (Some (ErrorString ''not found'')))))) = [1]
   \<and> map span_end_calls (spans (fst (redis_intercepted \<lparr>redis_Tracer = demo_tracer\<rparr> empty_world
        context_Background get_cmd (Returned (Some (ErrorString ''not found'')))))) = [1]"
  using hook_pair_span_lifecycle
    [where db = users_db and g = "\<lparr>gorm_Tracer = demo_tracer\<rparr>"
       and w = empty_world and err = "Some (ErrorString ''not found'')"
       and h = "\<lparr>redis_Tracer = demo_tracer\<rparr>" and ctx = context_Background and cmd = get_cmd
       and pv = NilPointerDereference]
  by (simp add: users_db_def empty_world_def)

text \<open>
  Against C4 as stated: around a call that panics, the Redis pair and the GORM
  pair each start one span and end it zero times.
\<close>

theorem hook_pair_span_lifecycle_counterexample:
  "map span_end_calls (spans (fst (redis_intercepted \<lparr>redis_Tracer = demo_tracer\<rparr> empty_world
      context_Background get_cmd (Panicked (CallPanic ''boom''))))) = [0]
   \<and> map span_end_calls (spans (fst (gorm_intercepted \<lparr>gorm_Tracer = demo_tracer\<rparr> empty_world
      users_db (Panicked (CallPanic ''boom''))))) = [0]"
  by (simp add: redis_intercepted_spans gorm_intercepted_spans [where sch = "\<lparr>Table = ''users''\<rparr>"]
        users_db_def empty_world_def)

section \<open>gRPC unary interceptor\<close>

text \<open>
  Once the handler is reached, what the interceptor hands back is what the
  handler handed back: its response and error, or its panic.
\<close>

lemma TracingInterceptor_result:
  "snd (TracingInterceptor t sm el w ctx req info handler) =
     (case interceptor_enter t w ctx info of
        Panics pv \<Rightarrow> Panics pv
      | Returns (w2, ctx1, sp) \<Rightarrow> snd (handler w2 ctx1 req))"
  by (simp add: TracingInterceptor_def Let_def split: prod.splits outcome.splits)

text \<open>
  Claim C5. For every wrapped call that returns an error, the interceptor
  returns that error and the call's result to its caller unchanged. The call
  is the one the interceptor makes: on the world and the context it has
  prepared.
\<close>

theorem interceptor_passes_error_through:
  assumes "interceptor_enter t w ctx info = Returns (w2, ctx1, sp)"
    and "handler w2 ctx1 req = (w3, Returns (resp, Some e))"
  shows "snd (TracingInterceptor t sm el w ctx req info handler) = Returns (resp, Some e)"
  using assms by (simp add: TracingInterceptor_def Let_def)

theorem interceptor_passes_error_through_witness:
  "interceptor_enter demo_tracer empty_world grpc_ctx get_info =
     Returns (entered_world, grpc_ctx\<lparr>ctx_span := Some 0\<rparr>, 0)
   \<and> not_found_handler entered_world (grpc_ctx\<lparr>ctx_span := Some 0\<rparr>) ''key'' =
       (entered_world, Returns ([], Some (ErrorString ''not found'')))
   \<and> snd (TracingInterceptor demo_tracer error_Error ''1ms'' empty_world grpc_ctx ''key'' get_info
            not_found_handler) =
       Returns ([], Some (ErrorString ''not found''))"
proof -
  have enter: "interceptor_enter demo_tracer empty_world grpc_ctx get_info =
      Returns (entered_world, grpc_ctx\<lparr>ctx_span := Some 0\<rparr>, 0)"
    by (simp add: interceptor_enter_def Let_def tracer_Start_def grpc_ctx_def get_info_def
          entered_world_def empty_world_def context_Background_def)
  have call: "not_found_handler entered_world (grpc_ctx\<lparr>ctx_span := Some 0\<rparr>) ''key'' =
      (entered_world, Returns ([], Some (ErrorString ''not found'')))"
    by (simp add: not_found_handler_def)
  from interceptor_passes_error_through
         [where handler = not_found_handler and req = "''key''" and sm = error_Error
            and el = "''1ms''", OF enter call]
       enter call
  show ?thesis by simp
qed

text \<open>
  The "not found" scenario on the span's side: the one span carries the status
  Error with the message and was ended once.
\<close>

lemma TracingInterceptor_not_found_span:
  "map span_status (spans (fst (TracingInterceptor demo_tracer error_Error ''1ms'' empty_world grpc_ctx
        ''key'' get_info not_found_handler))) = [(codes_Error, ''not found'')]
   \<and> map span_end_calls (spans (fst (TracingInterceptor demo_tracer error_Error ''1ms'' empty_world
        grpc_ctx ''key'' get_info not_found_handler))) = [1]"
  by (simp add: TracingInterceptor_def interceptor_enter_def Let_def tracer_Start_def grpc_ctx_def
        get_info_def empty_world_def context_Background_def not_found_handler_def span_ops)

end
